theory Spec2Isabelle
  imports Main
begin

section \<open>Python values and the primitives the plugins use\<close>

text \<open>
  The plugins talk to Snipe-IT over HTTP and read every response with \<^verbatim>\<open>json.loads\<close>.
  A decoded response is a JSON value as Python holds it: \<^verbatim>\<open>None\<close>, a bool, an int, a
  str, a list or a dict with string keys. A dict is the list of its items (keys pairwise
  distinct, as in any Python dict). JSON numbers are the integers Snipe-IT sends for ids
  and totals; floating point numbers are not modelled. A str is the list of the bytes
  of its UTF-8 encoding.
\<close>

datatype json =
    JNull
  | JBool bool
  | JInt int
  | JStr string
  | JArr "json list"
  | JObj "(string \<times> json) list"

text \<open>Python's \<^verbatim>\<open>==\<close>: a bool is an int (\<^verbatim>\<open>True == 1\<close>), lists compare item by item,
  dicts compare as maps, values of unrelated types are unequal.\<close>

fun py_eq :: "json \<Rightarrow> json \<Rightarrow> bool" where
  "py_eq JNull JNull = True"
| "py_eq (JBool a) (JBool b) = (a = b)"
| "py_eq (JBool a) (JInt j) = ((if a then 1 else 0) = j)"
| "py_eq (JInt i) (JBool b) = (i = (if b then 1 else 0))"
| "py_eq (JInt i) (JInt j) = (i = j)"
| "py_eq (JStr s) (JStr t) = (s = t)"
| "py_eq (JArr xs) (JArr ys) = list_all2 py_eq xs ys"
| "py_eq (JObj a) (JObj b) =
     (length a = length b \<and>
      list_all (\<lambda>(k, v). case map_of b k of None \<Rightarrow> False | Some w \<Rightarrow> py_eq v w) a)"
| "py_eq _ _ = False"

text \<open>Python's truth value of an object, as \<^verbatim>\<open>if x:\<close> and \<^verbatim>\<open>not x\<close> take it.\<close>

fun py_truthy :: "json \<Rightarrow> bool" where
  "py_truthy JNull = False"
| "py_truthy (JBool b) = b"
| "py_truthy (JInt i) = (i \<noteq> 0)"
| "py_truthy (JStr s) = (s \<noteq> [])"
| "py_truthy (JArr xs) = (xs \<noteq> [])"
| "py_truthy (JObj kvs) = (kvs \<noteq> [])"

text \<open>
  An f-string's \<^verbatim>\<open>{x}\<close> formats \<^verbatim>\<open>x\<close> with \<^verbatim>\<open>str\<close>: a str stands for itself, an int
  is written in decimal, and a list or a dict is written with the \<^verbatim>\<open>repr\<close> of its
  items. \<^verbatim>\<open>repr\<close> of a str quotes it (with \<^verbatim>\<open>"\<close> when it holds \<^verbatim>\<open>'\<close> and no \<^verbatim>\<open>"\<close>)
  and escapes the quote, the backslash and the ASCII control characters. Which
  characters beyond ASCII \<^verbatim>\<open>repr\<close> escapes is a matter of the Unicode tables, which are
  not embedded here: \<^verbatim>\<open>repr\<close> of a str with a byte from 0x80 on has no value
  (\<open>None\<close>), and neither has the \<^verbatim>\<open>str\<close> of a list or dict that holds such a str.
\<close>

definition digit :: "nat \<Rightarrow> char" where
  "digit d = ''0123456789abcdef'' ! d"

fun decimal :: "nat \<Rightarrow> string" where
  "decimal n = (if n < 10 then [digit n] else decimal (n div 10) @ [digit (n mod 10)])"

declare decimal.simps [simp del]

definition str_int :: "int \<Rightarrow> string" where
  "str_int i = (if i < 0 then CHR ''-'' # decimal (nat (- i)) else decimal (nat i))"

definition escape :: "char \<Rightarrow> char \<Rightarrow> string option" where
  "escape q c =
     (if 128 \<le> (of_char c :: nat) then None
      else if c = q \<or> c = CHR 0x5C then Some [CHR 0x5C, c]
      else if c = CHR 0x09 then Some [CHR 0x5C, CHR ''t'']
      else if c = CHR 0x0A then Some [CHR 0x5C, CHR ''n'']
      else if c = CHR 0x0D then Some [CHR 0x5C, CHR ''r'']
      else if (of_char c :: nat) < 32 \<or> c = CHR 0x7F
        then Some [CHR 0x5C, CHR ''x'', digit (of_char c div 16), digit (of_char c mod 16)]
      else Some [c])"

definition repr_str :: "string \<Rightarrow> string option" where
  "repr_str s =
     (let q = (if CHR 0x27 \<in> set s \<and> CHR 0x22 \<notin> set s then CHR 0x22 else CHR 0x27)
      in map_option (\<lambda>body. q # concat body @ [q]) (those (map (escape q) s)))"

fun join :: "string \<Rightarrow> string list \<Rightarrow> string" where
  "join sep [] = []"
| "join sep [x] = x"
| "join sep (x # y # ys) = x @ sep @ join sep (y # ys)"

fun py_repr :: "json \<Rightarrow> string option" where
  "py_repr JNull = Some ''None''"
| "py_repr (JBool b) = Some (if b then ''True'' else ''False'')"
| "py_repr (JInt i) = Some (str_int i)"
| "py_repr (JStr s) = repr_str s"
| "py_repr (JArr xs) =
     map_option (\<lambda>items. ''['' @ join '', '' items @ '']'') (those (map py_repr xs))"
| "py_repr (JObj kvs) =
     map_option (\<lambda>items. ''{'' @ join '', '' items @ ''}'')
       (those (map (\<lambda>(k, v).
          case repr_str k of
            None \<Rightarrow> None
          | Some rk \<Rightarrow> map_option (\<lambda>rv. rk @ '': '' @ rv) (py_repr v)) kvs))"

fun py_str :: "json \<Rightarrow> string option" where
  "py_str (JStr s) = Some s"
| "py_str v = py_repr v"

text \<open>\<^verbatim>\<open>s.rstrip('/')\<close> removes every trailing \<^verbatim>\<open>/\<close>.\<close>

definition rstrip :: "char \<Rightarrow> string \<Rightarrow> string" where
  "rstrip c s = rev (dropWhile (\<lambda>x. x = c) (rev s))"

text \<open>What is left of \<open>s\<close> after the prefix \<open>p\<close>, if \<open>s\<close> starts with \<open>p\<close>;
  \<^verbatim>\<open>k in s\<close> for two strs; and \<^verbatim>\<open>s.replace(old, new)\<close>, which replaces the occurrences
  of \<^verbatim>\<open>old\<close> from left to right.\<close>

fun strip_prefix :: "string \<Rightarrow> string \<Rightarrow> string option" where
  "strip_prefix [] s = Some s"
| "strip_prefix (p # ps) [] = None"
| "strip_prefix (p # ps) (c # cs) = (if p = c then strip_prefix ps cs else None)"

fun contains :: "string \<Rightarrow> string \<Rightarrow> bool" where
  "contains k [] = (k = [])"
| "contains k (c # cs) = (strip_prefix k (c # cs) \<noteq> None \<or> contains k cs)"

function replace :: "string \<Rightarrow> string \<Rightarrow> string \<Rightarrow> string" where
  "replace [] new s = new @ concat (map (\<lambda>c. c # new) s)"
| "replace (k # ks) new [] = []"
| "replace (k # ks) new (c # cs) =
     (case strip_prefix (k # ks) (c # cs) of
        Some rest \<Rightarrow> new @ replace (k # ks) new rest
      | None \<Rightarrow> c # replace (k # ks) new cs)"
  by pat_completeness auto
termination
proof (relation "measure (\<lambda>(old, new, s). length s)")
  fix k ks c cs rest and new :: string
  have split: "strip_prefix p s = Some r \<Longrightarrow> s = p @ r" for p s r
    by (induction p s rule: strip_prefix.induct) (auto split: if_splits)
  assume "strip_prefix (k # ks) (c # cs) = Some rest"
  then have "c # cs = (k # ks) @ rest" by (rule split)
  then have "length (c # cs) = length (k # ks) + length rest" by (metis length_append)
  then show "((k # ks, new, rest), (k # ks, new, c # cs)) \<in> measure (\<lambda>(old, new, s). length s)"
    by simp
qed simp_all

declare replace.simps(3) [simp del]

text \<open>The exceptions a run can die of. None of them is caught anywhere in the plugins.\<close>

datatype exn =
    KeyError json
  | TypeError
  | IndexError
  | AttributeError
  | ConnectionError
  | JSONDecodeError

text \<open>\<^verbatim>\<open>data["key"]\<close>: only a dict can be subscripted with a str.\<close>

fun getitem_str :: "json \<Rightarrow> string \<Rightarrow> exn + json" where
  "getitem_str (JObj kvs) k =
     (case map_of kvs k of None \<Rightarrow> Inl (KeyError (JStr k)) | Some v \<Rightarrow> Inr v)"
| "getitem_str _ k = Inl TypeError"

text \<open>\<^verbatim>\<open>rows[0]\<close>: the first item of a list, or the first character of a str (its
  first byte and the continuation bytes that follow it); a dict decoded from JSON
  has no key \<^verbatim>\<open>0\<close>.\<close>

definition continuation :: "char \<Rightarrow> bool" where
  "continuation c = (128 \<le> (of_char c :: nat) \<and> (of_char c :: nat) < 192)"

fun getitem_0 :: "json \<Rightarrow> exn + json" where
  "getitem_0 (JArr []) = Inl IndexError"
| "getitem_0 (JArr (x # xs)) = Inr x"
| "getitem_0 (JStr []) = Inl IndexError"
| "getitem_0 (JStr (c # cs)) = Inr (JStr (c # takeWhile continuation cs))"
| "getitem_0 (JObj kvs) = Inl (KeyError (JInt 0))"
| "getitem_0 _ = Inl TypeError"

text \<open>\<^verbatim>\<open>"key" in data.keys()\<close>: only a dict has \<^verbatim>\<open>keys\<close>.\<close>

fun in_keys :: "string \<Rightarrow> json \<Rightarrow> exn + bool" where
  "in_keys k (JObj kvs) = Inr (k \<in> fst ` set kvs)"
| "in_keys k _ = Inl AttributeError"

section \<open>HTTP requests, the remote service and the outcome of a run\<close>

datatype http_method = GET | POST | PATCH | DELETE

text \<open>The arguments of a \<^verbatim>\<open>requests.get/post/patch/delete\<close> call.\<close>

record request =
  meth :: http_method
  url :: string
  headers :: "(string \<times> string) list"
  params :: "(string \<times> string) list"
  json_body :: "json option"

text \<open>
  The service is any deterministic state machine: a request and the service's
  state give the new state and either the decoded body of the response or the
  exception that \<^verbatim>\<open>requests\<close> or \<^verbatim>\<open>json.loads\<close> raises. It stands for everything
  between the call of \<^verbatim>\<open>requests\<close> and the decoded body: the HTTP client, the network
  and Snipe-IT. A run threads the service's state and logs every request with its reply.
\<close>

type_synonym reply = "exn + json"

type_synonym 's server = "request \<Rightarrow> 's \<Rightarrow> reply \<times> 's"

record 's world =
  remote :: 's
  trace :: "(request \<times> reply) list"

text \<open>
  How a piece of plugin code ends: it returns a value, or \<^verbatim>\<open>module.fail_json\<close> or
  \<^verbatim>\<open>module.exit_json\<close> ends the process with a message or a result dict, or an
  exception that nobody catches ends it. \<open>Unmodelled\<close> is not an end of the
  program but of the model: the run has to format a value whose \<^verbatim>\<open>str\<close> the model
  does not give.
\<close>

datatype 'a outcome =
    Ok 'a
  | Fail string
  | Exit "(string \<times> json) list"
  | Crash exn
  | Unmodelled

type_synonym ('s, 'a) prog = "'s world \<Rightarrow> 'a outcome \<times> 's world"

definition ret :: "'a \<Rightarrow> ('s, 'a) prog" where
  "ret a w = (Ok a, w)"

definition lift :: "exn + 'a \<Rightarrow> ('s, 'a) prog" where
  "lift r w = (case r of Inl e \<Rightarrow> (Crash e, w) | Inr a \<Rightarrow> (Ok a, w))"

text \<open>The text that \<^verbatim>\<open>{x}\<close> puts into an f-string.\<close>

definition py_format :: "json \<Rightarrow> ('s, string) prog" where
  "py_format v w = (case py_str v of None \<Rightarrow> (Unmodelled, w) | Some text \<Rightarrow> (Ok text, w))"

text \<open>Sequencing: the rest of the code runs only when the first part returned.\<close>

definition and_then :: "('s, 'a) prog \<Rightarrow> ('a \<Rightarrow> ('s, 'b) prog) \<Rightarrow> ('s, 'b) prog" where
  "and_then m f w =
     (case m w of
        (Ok a, w') \<Rightarrow> f a w'
      | (Fail msg, w') \<Rightarrow> (Fail msg, w')
      | (Exit r, w') \<Rightarrow> (Exit r, w')
      | (Crash e, w') \<Rightarrow> (Crash e, w')
      | (Unmodelled, w') \<Rightarrow> (Unmodelled, w'))"

text \<open>\<^verbatim>\<open>json.loads(requests.get(...).text)\<close>: one round trip to the service.\<close>

definition http :: "'s server \<Rightarrow> request \<Rightarrow> ('s, json) prog" where
  "http srv req w =
     (case srv req (remote w) of
        (rep, s') \<Rightarrow>
          (case rep of Inl e \<Rightarrow> Crash e | Inr data \<Rightarrow> Ok data,
           \<lparr>remote = s', trace = trace w @ [(req, rep)]\<rparr>))"

definition bearer :: "string \<Rightarrow> (string \<times> string) list" where
  "bearer api_key = [(''Authorization'', ''Bearer '' @ api_key)]"

subsection \<open>The AnsibleModule object\<close>

text \<open>
  Of the \<^verbatim>\<open>AnsibleModule\<close> object the functions use \<^verbatim>\<open>fail_json\<close> and \<^verbatim>\<open>exit_json\<close>.
  Both print their result after \<^verbatim>\<open>remove_values\<close> has taken the values of the
  \<^verbatim>\<open>no_log\<close> parameters out of it: in a str every occurrence of such a value becomes
  \<^verbatim>\<open>********\<close>, and a str that is such a value, or a number, bool or \<^verbatim>\<open>None\<close>
  whose \<^verbatim>\<open>str\<close> holds one, becomes \<^verbatim>\<open>VALUE_SPECIFIED_IN_NO_LOG_PARAMETER\<close>; the bools
  and \<^verbatim>\<open>None\<close> at the top of the result are kept as they are. The three modules
  declare \<^verbatim>\<open>api_key\<close> as \<^verbatim>\<open>no_log\<close>; an empty value is not recorded.
\<close>

record ansible_module =
  no_log_values :: "string list"

definition new_module :: "string \<Rightarrow> ansible_module" where
  "new_module api_key = \<lparr>no_log_values = (if api_key = [] then [] else [api_key])\<rparr>"

definition mask_str :: "string list \<Rightarrow> string \<Rightarrow> string" where
  "mask_str no_log s =
     (if s \<in> set no_log then ''VALUE_SPECIFIED_IN_NO_LOG_PARAMETER''
      else fold (\<lambda>omit_me text. replace omit_me ''********'' text) no_log s)"

definition mask_scalar :: "string list \<Rightarrow> string \<Rightarrow> json \<Rightarrow> json" where
  "mask_scalar no_log stringified v =
     (if list_ex (\<lambda>omit_me. contains omit_me stringified) no_log
      then JStr ''VALUE_SPECIFIED_IN_NO_LOG_PARAMETER'' else v)"

fun remove_values :: "string list \<Rightarrow> json \<Rightarrow> json" where
  "remove_values no_log (JStr s) = JStr (mask_str no_log s)"
| "remove_values no_log (JArr xs) = JArr (map (remove_values no_log) xs)"
| "remove_values no_log (JObj kvs) = JObj (map (\<lambda>(k, v). (k, remove_values no_log v)) kvs)"
| "remove_values no_log (JInt i) = mask_scalar no_log (str_int i) (JInt i)"
| "remove_values no_log (JBool b) = mask_scalar no_log (if b then ''True'' else ''False'') (JBool b)"
| "remove_values no_log JNull = mask_scalar no_log ''None'' JNull"

fun preserved :: "json \<Rightarrow> bool" where
  "preserved JNull = True"
| "preserved (JBool b) = True"
| "preserved _ = False"

definition fail_json :: "ansible_module \<Rightarrow> string \<Rightarrow> ('s, 'a) prog" where
  "fail_json module msg w = (Fail (mask_str (no_log_values module) msg), w)"

definition exit_json :: "ansible_module \<Rightarrow> (string \<times> json) list \<Rightarrow> ('s, 'a) prog" where
  "exit_json module result w =
     (Exit (map (\<lambda>(k, v). (k, if preserved v then v
                               else remove_values (no_log_values module) v)) result), w)"

text \<open>
  The check every mutating call ends with:
  \<^verbatim>\<open>if data["status"] == "error": module.fail_json(msg=f"<what>{data['messages']}")\<close>.
\<close>

definition fail_if_error :: "ansible_module \<Rightarrow> string \<Rightarrow> json \<Rightarrow> ('s, unit) prog" where
  "fail_if_error module what data =
     and_then (lift (getitem_str data ''status'')) (\<lambda>status.
       if py_eq status (JStr ''error'')
       then and_then (lift (getitem_str data ''messages'')) (\<lambda>messages.
            and_then (py_format messages) (\<lambda>text.
              fail_json module (what @ text)))
       else ret ())"

section \<open>module\_utils/snipeit.py\<close>

definition get_category :: "'s server \<Rightarrow> string \<Rightarrow> string \<Rightarrow> string \<Rightarrow> string \<Rightarrow> ('s, json) prog" where
  "get_category srv snipe_url api_key name category_type =
     and_then (http srv
       \<lparr>meth = GET, url = rstrip CHR ''/'' snipe_url @ ''/api/v1/categories'',
        headers = bearer api_key,
        params = [(''name'', name), (''category_type'', category_type)],
        json_body = None\<rparr>) (\<lambda>data.
     and_then (lift (getitem_str data ''total'')) (\<lambda>total.
       if py_eq total (JInt 0) then ret JNull
       else and_then (lift (getitem_str data ''rows'')) (\<lambda>rows. lift (getitem_0 rows))))"

text \<open>\<^verbatim>\<open>get_model\<close> takes the module and never uses it.\<close>

definition get_model ::
    "'s server \<Rightarrow> string \<Rightarrow> string \<Rightarrow> string \<Rightarrow> ansible_module \<Rightarrow> ('s, json) prog" where
  "get_model srv snipe_url api_key name module =
     and_then (http srv
       \<lparr>meth = GET, url = rstrip CHR ''/'' snipe_url @ ''/api/v1/models'',
        headers = bearer api_key,
        params = [(''name'', name)],
        json_body = None\<rparr>) (\<lambda>data.
     and_then (lift (getitem_str data ''total'')) (\<lambda>total.
       if py_eq total (JInt 0) then ret JNull
       else and_then (lift (getitem_str data ''rows'')) (\<lambda>rows. lift (getitem_0 rows))))"

text \<open>
  \<^verbatim>\<open>get_entry\<close> reads \<^verbatim>\<open>data["status"]\<close> twice; the second read gives what the first
  gave, so the model reads it once.
\<close>

definition get_entry ::
    "'s server \<Rightarrow> string \<Rightarrow> string \<Rightarrow> string \<Rightarrow> ansible_module \<Rightarrow> ('s, json) prog" where
  "get_entry srv snipe_url api_key asset_tag module =
     and_then (http srv
       \<lparr>meth = GET, url = rstrip CHR ''/'' snipe_url @ ''/api/v1/hardware/bytag/'' @ asset_tag,
        headers = bearer api_key,
        params = [],
        json_body = None\<rparr>) (\<lambda>data.
     and_then (lift (in_keys ''asset_tag'' data)) (\<lambda>found.
       if found then ret data
       else and_then (lift (getitem_str data ''status'')) (\<lambda>status.
         if py_eq status (JStr ''error'')
         then and_then (lift (getitem_str data ''messages'')) (\<lambda>messages.
                if py_eq messages (JStr ''Asset does not exist.'') then ret JNull
                else and_then (py_format messages) (\<lambda>text.
                       fail_json module (''Error retrieving entry: '' @ text)))
         else fail_json module ''Unknown response from SnipeIT'')))"

section \<open>modules/snipeit\_category.py\<close>

definition create_category ::
    "'s server \<Rightarrow> string \<Rightarrow> string \<Rightarrow> string \<Rightarrow> string \<Rightarrow> ansible_module \<Rightarrow> bool \<Rightarrow>
     ('s, bool) prog" where
  "create_category srv snipe_url api_key name category_type module dry_run =
     and_then (get_category srv snipe_url api_key name category_type) (\<lambda>category.
       if py_truthy category then ret False
       else if \<not> py_truthy category \<and> dry_run then ret True
       else
         and_then (http srv
           \<lparr>meth = POST, url = rstrip CHR ''/'' snipe_url @ ''/api/v1/categories'',
            headers = bearer api_key,
            params = [],
            json_body = Some (JObj [(''name'', JStr name),
                                    (''category_type'', JStr category_type)])\<rparr>) (\<lambda>data.
         and_then (fail_if_error module ''Error creating category: '' data) (\<lambda>_.
           ret True)))"

text \<open>
  What \<^verbatim>\<open>AnsibleModule(argument_spec=...)\<close> hands to \<^verbatim>\<open>run_module\<close> in
  \<^verbatim>\<open>module.params\<close>, after Ansible has checked the types, the required arguments and
  the choices. Every module takes the connection parameters.
\<close>

record connection =
  p_snipe_url :: string
  p_api_key :: string

record category_params = connection +
  p_name :: string
  p_category_type :: string

definition run_module_category :: "'s server \<Rightarrow> category_params \<Rightarrow> ('s, unit) prog" where
  "run_module_category srv p =
     (let module = new_module (p_api_key p) in
      and_then (create_category srv (p_snipe_url p) (p_api_key p) (p_name p)
                  (p_category_type p) module False) (\<lambda>changed.
      and_then (get_category srv (p_snipe_url p) (p_api_key p) (p_name p)
                  (p_category_type p)) (\<lambda>category.
      and_then (lift (getitem_str category ''id'')) (\<lambda>category_id.
        exit_json module [(''changed'', JBool changed), (''category_id'', category_id)]))))"

section \<open>modules/snipeit\_model.py\<close>

text \<open>\<^verbatim>\<open>manufacturer_id\<close> is an int or \<^verbatim>\<open>None\<close>; \<^verbatim>\<open>if manufacturer_id:\<close> takes its
  truth value.\<close>

fun truthy_int :: "int option \<Rightarrow> bool" where
  "truthy_int None = False"
| "truthy_int (Some i) = (i \<noteq> 0)"

fun json_of_int :: "int option \<Rightarrow> json" where
  "json_of_int None = JNull"
| "json_of_int (Some i) = JInt i"

definition model_payload :: "string \<Rightarrow> json \<Rightarrow> int option \<Rightarrow> json" where
  "model_payload name category_id manufacturer_id =
     JObj ([(''name'', JStr name), (''category_id'', category_id)] @
           (if truthy_int manufacturer_id
            then [(''manufacturer_id'', json_of_int manufacturer_id)] else []))"

definition create_model ::
    "'s server \<Rightarrow> string \<Rightarrow> string \<Rightarrow> string \<Rightarrow> json \<Rightarrow> ansible_module \<Rightarrow> bool \<Rightarrow>
     int option \<Rightarrow> ('s, bool) prog" where
  "create_model srv snipe_url api_key name category_id module dry_run manufacturer_id =
     and_then (get_model srv snipe_url api_key name module) (\<lambda>model.
       if py_truthy model then ret False
       else if \<not> py_truthy model \<and> dry_run then ret True
       else
         and_then (http srv
           \<lparr>meth = POST, url = rstrip CHR ''/'' snipe_url @ ''/api/v1/models'',
            headers = bearer api_key,
            params = [],
            json_body = Some (model_payload name category_id manufacturer_id)\<rparr>) (\<lambda>data.
         and_then (fail_if_error module ''Error creating model: '' data) (\<lambda>_.
           ret True)))"

record model_params = connection +
  p_model :: string
  p_category :: string
  p_manufacturer_id :: "int option"
  p_dry_run :: bool

definition run_module_model :: "'s server \<Rightarrow> model_params \<Rightarrow> ('s, unit) prog" where
  "run_module_model srv p =
     (let module = new_module (p_api_key p) in
      and_then (get_category srv (p_snipe_url p) (p_api_key p) (p_category p) ''asset'')
        (\<lambda>category.
        if \<not> py_truthy category
        then fail_json module (''Category '' @ p_category p @ '' not found!'')
        else
          and_then (lift (getitem_str category ''id'')) (\<lambda>category_id.
          and_then (create_model srv (p_snipe_url p) (p_api_key p) (p_model p) category_id
                      module (p_dry_run p) (p_manufacturer_id p)) (\<lambda>changed.
            exit_json module [(''changed'', JBool changed)]))))"

section \<open>modules/snipeit\_entry.py\<close>

definition create_entry ::
    "'s server \<Rightarrow> string \<Rightarrow> string \<Rightarrow> string \<Rightarrow> int \<Rightarrow> json \<Rightarrow> ansible_module \<Rightarrow> bool \<Rightarrow>
     ('s, bool) prog" where
  "create_entry srv snipe_url api_key asset_tag status_id model_id module dry_run =
     and_then (get_entry srv snipe_url api_key asset_tag module) (\<lambda>entry.
       if py_truthy entry then ret False
       else if \<not> py_truthy entry \<and> dry_run then ret True
       else
         and_then (http srv
           \<lparr>meth = POST, url = rstrip CHR ''/'' snipe_url @ ''/api/v1/hardware'',
            headers = bearer api_key,
            params = [],
            json_body = Some (JObj [(''asset_tag'', JStr asset_tag),
                                    (''status_id'', JInt status_id),
                                    (''model_id'', model_id)])\<rparr>) (\<lambda>data.
         and_then (fail_if_error module ''Error creating entry: '' data) (\<lambda>_.
           ret True)))"

definition delete_entry ::
    "'s server \<Rightarrow> string \<Rightarrow> string \<Rightarrow> string \<Rightarrow> ansible_module \<Rightarrow> bool \<Rightarrow> ('s, bool) prog" where
  "delete_entry srv snipe_url api_key asset_tag module dry_run =
     and_then (get_entry srv snipe_url api_key asset_tag module) (\<lambda>entry.
       if \<not> py_truthy entry then ret False
       else if py_truthy entry \<and> dry_run then ret True
       else
         and_then (lift (getitem_str entry ''id'')) (\<lambda>entry_id.
         and_then (py_format entry_id) (\<lambda>ident.
         and_then (http srv
           \<lparr>meth = DELETE,
            url = rstrip CHR ''/'' snipe_url @ ''/api/v1/hardware/'' @ ident,
            headers = bearer api_key,
            params = [],
            json_body = None\<rparr>) (\<lambda>data.
         and_then (fail_if_error module ''Error deleting entry: '' data) (\<lambda>_.
           ret True)))))"

text \<open>
  The two updates read a field of the entry that \<^verbatim>\<open>get_entry\<close> returned without
  looking whether it is \<^verbatim>\<open>None\<close>. The second test, \<^verbatim>\<open>!=\<close>, is the negation of the
  first.
\<close>

definition update_entry_model ::
    "'s server \<Rightarrow> string \<Rightarrow> string \<Rightarrow> string \<Rightarrow> json \<Rightarrow> ansible_module \<Rightarrow> bool \<Rightarrow>
     ('s, bool) prog" where
  "update_entry_model srv snipe_url api_key asset_tag model_id module dry_run =
     and_then (get_entry srv snipe_url api_key asset_tag module) (\<lambda>entry.
     and_then (lift (getitem_str entry ''model'')) (\<lambda>entry_model.
     and_then (lift (getitem_str entry_model ''id'')) (\<lambda>entry_model_id.
       if py_eq entry_model_id model_id then ret False
       else if \<not> py_eq entry_model_id model_id \<and> dry_run then ret True
       else
         and_then (lift (getitem_str entry ''id'')) (\<lambda>entry_id.
         and_then (py_format entry_id) (\<lambda>ident.
         and_then (http srv
           \<lparr>meth = PATCH,
            url = rstrip CHR ''/'' snipe_url @ ''/api/v1/hardware/'' @ ident,
            headers = bearer api_key,
            params = [],
            json_body = Some (JObj [(''model_id'', model_id)])\<rparr>) (\<lambda>data.
         and_then (fail_if_error module ''Error updating entry: '' data) (\<lambda>_.
           ret True)))))))"

definition update_entry_status_label ::
    "'s server \<Rightarrow> string \<Rightarrow> string \<Rightarrow> string \<Rightarrow> int \<Rightarrow> ansible_module \<Rightarrow> bool \<Rightarrow>
     ('s, bool) prog" where
  "update_entry_status_label srv snipe_url api_key asset_tag status_id module dry_run =
     and_then (get_entry srv snipe_url api_key asset_tag module) (\<lambda>entry.
     and_then (lift (getitem_str entry ''status_label'')) (\<lambda>entry_status.
     and_then (lift (getitem_str entry_status ''id'')) (\<lambda>entry_status_id.
       if py_eq entry_status_id (JInt status_id) then ret False
       else if \<not> py_eq entry_status_id (JInt status_id) \<and> dry_run then ret True
       else
         and_then (lift (getitem_str entry ''id'')) (\<lambda>entry_id.
         and_then (py_format entry_id) (\<lambda>ident.
         and_then (http srv
           \<lparr>meth = PATCH,
            url = rstrip CHR ''/'' snipe_url @ ''/api/v1/hardware/'' @ ident,
            headers = bearer api_key,
            params = [],
            json_body = Some (JObj [(''status_id'', JInt status_id)])\<rparr>) (\<lambda>data.
         and_then (fail_if_error module ''Error updating entry: '' data) (\<lambda>_.
           ret True)))))))"

datatype entry_state = Present | Absent

text \<open>
  \<^verbatim>\<open>model_name\<close> is not required: Ansible hands \<^verbatim>\<open>None\<close> when it is not given. The
  code reads it as a truth value in \<^verbatim>\<open>verify_params\<close> and as a str only after that
  test has passed, so the empty string stands for \<^verbatim>\<open>None\<close> too. \<^verbatim>\<open>p_check_mode\<close> is
  \<^verbatim>\<open>module.check_mode\<close>.
\<close>

record entry_params = connection +
  p_asset_tag :: string
  p_status_id :: int
  p_model_name :: string
  p_state :: entry_state
  p_check_mode :: bool

definition verify_params :: "ansible_module \<Rightarrow> entry_params \<Rightarrow> ('s, unit) prog" where
  "verify_params module p =
     (if p_state p = Present \<and> p_model_name p = []
      then fail_json module ''model_name is required when state is present''
      else ret ())"

definition run_module_entry :: "'s server \<Rightarrow> entry_params \<Rightarrow> ('s, unit) prog" where
  "run_module_entry srv p =
     (let module = new_module (p_api_key p) in
      and_then (verify_params module p) (\<lambda>_.
        if p_state p = Absent
        then
          and_then (delete_entry srv (p_snipe_url p) (p_api_key p) (p_asset_tag p) module
                      (p_check_mode p)) (\<lambda>changed.
            exit_json module [(''changed'', JBool changed)])
        else
          and_then (get_model srv (p_snipe_url p) (p_api_key p) (p_model_name p) module)
            (\<lambda>model.
            if \<not> py_truthy model
            then fail_json module (''Model '' @ p_model_name p @ '' does not exist'')
            else
              and_then (lift (getitem_str model ''id'')) (\<lambda>model_id.
              and_then (create_entry srv (p_snipe_url p) (p_api_key p) (p_asset_tag p)
                          (p_status_id p) model_id module (p_check_mode p)) (\<lambda>changed.
              and_then (update_entry_model srv (p_snipe_url p) (p_api_key p) (p_asset_tag p)
                          model_id module (p_check_mode p)) (\<lambda>updated.
              let changed = (updated \<or> changed) in
              and_then (update_entry_status_label srv (p_snipe_url p) (p_api_key p)
                          (p_asset_tag p) (p_status_id p) module (p_check_mode p)) (\<lambda>updated.
              let changed = (updated \<or> changed) in
                exit_json module [(''changed'', JBool changed)])))))))"

section \<open>A small Snipe-IT to run the plugins against\<close>

text \<open>
  The theorems below hold for every service. To run the plugins on concrete inputs
  there is a small in-memory service at \<^verbatim>\<open>http://snipe\<close> that answers as Snipe-IT
  does: list envelopes \<^verbatim>\<open>{total, rows}\<close> for categories and models, the asset or the
  error envelope \<^verbatim>\<open>{status, messages}\<close> for \<^verbatim>\<open>bytag\<close>, and \<^verbatim>\<open>{status: success}\<close> for a
  request that changed something. As with any HTTP service, the path of a request ends
  where the query (\<^verbatim>\<open>?\<close>) or the fragment (\<^verbatim>\<open>#\<close>) of its URL begins.
\<close>

record snipe =
  categories :: "(int \<times> string \<times> string) list"
  models :: "(int \<times> string \<times> json) list"
  hardware :: "(int \<times> string \<times> json \<times> json) list"
  next_id :: int

definition target :: "string \<Rightarrow> string" where
  "target u = takeWhile (\<lambda>c. c \<noteq> CHR ''#'' \<and> c \<noteq> CHR ''?'') u"

definition success :: reply where
  "success = Inr (JObj [(''status'', JStr ''success''), (''messages'', JStr ''Done.'')])"

definition failure :: "string \<Rightarrow> reply" where
  "failure msg = Inr (JObj [(''status'', JStr ''error''), (''messages'', JStr msg)])"

definition listing :: "json list \<Rightarrow> reply" where
  "listing rows = Inr (JObj [(''total'', JInt (int (length rows))), (''rows'', JArr rows)])"

fun category_row :: "int \<times> string \<times> string \<Rightarrow> json" where
  "category_row (i, n, t) =
     JObj [(''id'', JInt i), (''name'', JStr n), (''category_type'', JStr t)]"

fun model_row :: "int \<times> string \<times> json \<Rightarrow> json" where
  "model_row (i, n, c) =
     JObj [(''id'', JInt i), (''name'', JStr n), (''category'', JObj [(''id'', c)])]"

fun hardware_row :: "int \<times> string \<times> json \<times> json \<Rightarrow> json" where
  "hardware_row (i, tag, m, st) =
     JObj [(''id'', JInt i), (''asset_tag'', JStr tag), (''model'', JObj [(''id'', m)]),
           (''status_label'', JObj [(''id'', st)])]"

text \<open>A field of the JSON body of a request.\<close>

definition field :: "json option \<Rightarrow> string \<Rightarrow> json option" where
  "field body k =
     (case body of
        Some (JObj kvs) \<Rightarrow> map_of kvs k
      | _ \<Rightarrow> None)"

definition snipe_categories :: "snipe server" where
  "snipe_categories req s =
     (case meth req of
        GET \<Rightarrow>
          (listing (map category_row (filter (\<lambda>(i, n, t).
              map_of (params req) ''name'' = Some n \<and>
              map_of (params req) ''category_type'' = Some t) (categories s))), s)
      | POST \<Rightarrow>
          (case (field (json_body req) ''name'', field (json_body req) ''category_type'') of
             (Some (JStr n), Some (JStr t)) \<Rightarrow>
               (success, s\<lparr>categories := categories s @ [(next_id s, n, t)],
                           next_id := next_id s + 1\<rparr>)
           | _ \<Rightarrow> (failure ''The name field is required.'', s))
      | _ \<Rightarrow> (failure ''Method not allowed.'', s))"

definition snipe_models :: "snipe server" where
  "snipe_models req s =
     (case meth req of
        GET \<Rightarrow>
          (listing (map model_row (filter (\<lambda>(i, n, c).
              map_of (params req) ''name'' = Some n) (models s))), s)
      | POST \<Rightarrow>
          (case (field (json_body req) ''name'', field (json_body req) ''category_id'') of
             (Some (JStr n), Some c) \<Rightarrow>
               (success, s\<lparr>models := models s @ [(next_id s, n, c)],
                           next_id := next_id s + 1\<rparr>)
           | _ \<Rightarrow> (failure ''The name field is required.'', s))
      | _ \<Rightarrow> (failure ''Method not allowed.'', s))"

definition snipe_bytag :: "string \<Rightarrow> snipe server" where
  "snipe_bytag tag req s =
     (case filter (\<lambda>(i, t, m, st). t = tag) (hardware s) of
        [] \<Rightarrow> (failure ''Asset does not exist.'', s)
      | row # _ \<Rightarrow> (Inr (hardware_row row), s))"

definition snipe_hardware :: "snipe server" where
  "snipe_hardware req s =
     (case (field (json_body req) ''asset_tag'', field (json_body req) ''status_id'',
            field (json_body req) ''model_id'') of
        (Some (JStr tag), Some st, Some m) \<Rightarrow>
          (success, s\<lparr>hardware := hardware s @ [(next_id s, tag, m, st)],
                      next_id := next_id s + 1\<rparr>)
      | _ \<Rightarrow> (failure ''The asset tag field is required.'', s))"

fun patch_row :: "json option \<Rightarrow> int \<times> string \<times> json \<times> json \<Rightarrow> int \<times> string \<times> json \<times> json" where
  "patch_row body (i, tag, m, st) =
     (i, tag,
      (case field body ''model_id'' of Some m' \<Rightarrow> m' | None \<Rightarrow> m),
      (case field body ''status_id'' of Some st' \<Rightarrow> st' | None \<Rightarrow> st))"

definition snipe_asset :: "string \<Rightarrow> snipe server" where
  "snipe_asset ident req s =
     (if \<not> list_ex (\<lambda>(i, t, m, st). str_int i = ident) (hardware s)
      then (failure ''Asset not found'', s)
      else
        (case meth req of
           PATCH \<Rightarrow>
             (success, s\<lparr>hardware := map (\<lambda>row. if str_int (fst row) = ident
                                                  then patch_row (json_body req) row else row)
                                           (hardware s)\<rparr>)
         | DELETE \<Rightarrow>
             (success, s\<lparr>hardware := filter (\<lambda>row. str_int (fst row) \<noteq> ident) (hardware s)\<rparr>)
         | _ \<Rightarrow> (failure ''Method not allowed.'', s)))"

definition snipe_it :: "snipe server" where
  "snipe_it req s =
     (case strip_prefix ''http://snipe/api/v1/'' (target (url req)) of
        None \<Rightarrow> (Inl ConnectionError, s)
      | Some path \<Rightarrow>
          if path = ''categories'' then snipe_categories req s
          else if path = ''models'' then snipe_models req s
          else if path = ''hardware'' then snipe_hardware req s
          else
            (case strip_prefix ''hardware/bytag/'' path of
               Some tag \<Rightarrow> snipe_bytag tag req s
             | None \<Rightarrow>
                 (case strip_prefix ''hardware/'' path of
                    Some ident \<Rightarrow> snipe_asset ident req s
                  | None \<Rightarrow> (Inl JSONDecodeError, s))))"

text \<open>A fresh installation with one category and one model, and no asset.\<close>

definition fresh :: snipe where
  "fresh = \<lparr>categories = [(1, ''servers'', ''asset'')],
            models = [(2, ''rack-server'', JInt 1)],
            hardware = [],
            next_id = 3\<rparr>"

definition start :: "'s \<Rightarrow> 's world" where
  "start s = \<lparr>remote = s, trace = []\<rparr>"

text \<open>A service that rejects every request, and one that only rejects changes.\<close>

definition unauthorized :: "unit server" where
  "unauthorized req s = (failure ''Unauthorized.'', s)"


text \<open>A service that already holds the asset \<^verbatim>\<open>a1\<close>, with model 4 and status 1, and
  the parameters of the entry module for that asset: to ensure that it is there, and to
  ensure that it is not.\<close>

definition stocked :: snipe where
  "stocked = fresh\<lparr>hardware := [(3, ''a1'', JInt 4, JInt 1)], next_id := 5\<rparr>"

definition entry_a1 :: entry_params where
  "entry_a1 = \<lparr>p_snipe_url = ''http://snipe/'', p_api_key = ''k'', p_asset_tag = ''a1'',
               p_status_id = 2, p_model_name = ''rack-server'', p_state = Present,
               p_check_mode = False\<rparr>"


text \<open>A service that holds an asset whose tag has a \<^verbatim>\<open>#\<close> in it, and the parameters to
  ensure that this asset is not there.\<close>

definition tagged :: snipe where
  "tagged = fresh\<lparr>hardware := [(3, ''a#1'', JInt 2, JInt 2)], next_id := 4\<rparr>"


section \<open>What a run sends\<close>

text \<open>The requests (with their replies) that a piece of code adds to the trace.\<close>

definition issued :: "('s, 'a) prog \<Rightarrow> 's world \<Rightarrow> (request \<times> reply) list" where
  "issued m w = drop (length (trace w)) (trace (snd (m w)))"

text \<open>Whatever the service and its state: the code only appends to the trace, and
  every request it appends satisfies \<open>P\<close>; or what it appends, as a whole,
  satisfies \<open>P\<close>.\<close>

definition issues :: "(request \<Rightarrow> bool) \<Rightarrow> ('s, 'a) prog \<Rightarrow> bool" where
  "issues P m =
     (\<forall>w. \<exists>ext. trace (snd (m w)) = trace w @ ext \<and> list_all (\<lambda>x. P (fst x)) ext)"


definition sends :: "http_method \<Rightarrow> string \<Rightarrow> request \<Rightarrow> bool" where
  "sends m u req = (meth req = m \<and> url req = u)"





text \<open>The \<^verbatim>\<open>messages\<close> of a reply that is an error envelope: a dict whose \<^verbatim>\<open>status\<close> is
  \<^verbatim>\<open>"error"\<close> and that has \<^verbatim>\<open>messages\<close>.\<close>

definition error_messages :: "reply \<Rightarrow> json option" where
  "error_messages rep =
     (case rep of
        Inr (JObj kvs) \<Rightarrow>
          (case map_of kvs ''status'' of
             Some status \<Rightarrow> if py_eq status (JStr ''error'') then map_of kvs ''messages'' else None
           | None \<Rightarrow> None)
      | _ \<Rightarrow> None)"







text \<open>
  What a service does that keeps what was created: whenever it answers a request that
  creates the resource without an error, it answers a lookup of the same key, in the
  state that the creation left, with the resource. A reply without an error is a dict
  whose \<^verbatim>\<open>status\<close> is not \<^verbatim>\<open>"error"\<close>. The resource is there for a list lookup when
  \<^verbatim>\<open>total\<close> is not 0 and \<^verbatim>\<open>rows[0]\<close> is a row, and for the lookup by tag when the reply
  is a dict with \<^verbatim>\<open>asset_tag\<close>.
\<close>

definition accepted :: "json \<Rightarrow> bool" where
  "accepted data =
     (case getitem_str data ''status'' of
        Inr status \<Rightarrow> \<not> py_eq status (JStr ''error'')
      | Inl e \<Rightarrow> False)"


definition holds_asset :: "json \<Rightarrow> bool" where
  "holds_asset data = (in_keys ''asset_tag'' data = Inr True)"

definition keeps ::
    "'s server \<Rightarrow> (request \<Rightarrow> bool) \<Rightarrow> (request \<Rightarrow> bool) \<Rightarrow> (json \<Rightarrow> bool) \<Rightarrow> bool" where
  "keeps srv creates looks_up found =
     (\<forall>s req data s'. creates req \<and> srv req s = (Inr data, s') \<and> accepted data \<longrightarrow>
        (\<forall>get. looks_up get \<longrightarrow> (\<exists>row s''. srv get s' = (Inr row, s'') \<and> found row)))"





definition creates_entry :: "string \<Rightarrow> string \<Rightarrow> request \<Rightarrow> bool" where
  "creates_entry base asset_tag req =
     (sends POST (base @ ''/api/v1/hardware'') req \<and>
      field (json_body req) ''asset_tag'' = Some (JStr asset_tag))"

definition looks_up_entry :: "string \<Rightarrow> string \<Rightarrow> request \<Rightarrow> bool" where
  "looks_up_entry base asset_tag req =
     sends GET (base @ ''/api/v1/hardware/bytag/'' @ asset_tag) req"



subsection \<open>Rules for the requests of composed code\<close>

lemma issues_ret: "issues P (ret a)"
  by (simp add: issues_def ret_def)

lemma issues_fail_json: "issues P (fail_json module msg)"
  by (simp add: issues_def fail_json_def)

lemma issues_exit_json: "issues P (exit_json module r)"
  by (simp add: issues_def exit_json_def)

lemma issues_lift: "issues P (lift r)"
  by (simp add: issues_def lift_def split: sum.split)

lemma issues_py_format: "issues P (py_format v)"
  by (simp add: issues_def py_format_def split: option.split)

lemma issues_http: "P req \<Longrightarrow> issues P (http srv req)"
  by (simp add: issues_def http_def split: prod.split sum.split)

lemma issues_and_then:
  assumes m: "issues P m" and f: "\<And>a. issues P (f a)"
  shows "issues P (and_then m f)"
  unfolding issues_def
proof
  fix w
  from m obtain e1 where e1: "trace (snd (m w)) = trace w @ e1" "list_all (\<lambda>x. P (fst x)) e1"
    unfolding issues_def by blast
  show "\<exists>ext. trace (snd (and_then m f w)) = trace w @ ext \<and> list_all (\<lambda>x. P (fst x)) ext"
  proof (cases "m w")
    case (Pair r w')
    show ?thesis
    proof (cases r)
      case (Ok a)
      from f obtain e2 where e2: "trace (snd (f a w')) = trace w' @ e2"
          "list_all (\<lambda>x. P (fst x)) e2"
        unfolding issues_def by blast
      have "trace (snd (and_then m f w)) = trace w @ (e1 @ e2)"
        using Pair Ok e1 e2 by (simp add: and_then_def)
      moreover have "list_all (\<lambda>x. P (fst x)) (e1 @ e2)" using e1 e2 by simp
      ultimately show ?thesis by blast
    qed (use Pair e1 in \<open>auto simp: and_then_def\<close>)
  qed
qed

lemma issues_if:
  "(c \<Longrightarrow> issues P a) \<Longrightarrow> (\<not> c \<Longrightarrow> issues P b) \<Longrightarrow> issues P (if c then a else b)"
  by simp

lemma issues_mono: "issues P m \<Longrightarrow> (\<And>r. P r \<Longrightarrow> Q r) \<Longrightarrow> issues Q m"
  unfolding issues_def list_all_iff by meson

lemma issues_issued: "issues P m \<Longrightarrow> list_all (\<lambda>x. P (fst x)) (issued m w)"
  unfolding issues_def issued_def by (metis append_eq_conv_conj)

lemma issues_fail_if_error: "issues P (fail_if_error module what data)"
  unfolding fail_if_error_def
  by (intro issues_and_then issues_lift issues_py_format issues_if issues_fail_json issues_ret)

lemmas issues_intros =
  issues_and_then issues_lift issues_py_format issues_if issues_fail_json issues_ret
  issues_exit_json issues_fail_if_error

lemma issued_all:
  assumes "issues P m" and "\<And>req. P req \<Longrightarrow> Q req"
  shows "list_all (\<lambda>(req, rep). Q req) (issued m w)"
proof -
  have "issues Q m" using assms by (rule issues_mono)
  from issues_issued [OF this, of w] show ?thesis by (simp add: case_prod_unfold)
qed

subsection \<open>Rules for what a run emits as a whole\<close>




subsection \<open>Rules for code that never exits\<close>













subsection \<open>The requests of every function\<close>

lemma get_category_issues:
  "issues (sends GET (rstrip CHR ''/'' u @ ''/api/v1/categories'')) (get_category srv u k n t)"
  unfolding get_category_def
  by (intro issues_intros issues_http) (simp add: sends_def)

lemma get_model_issues:
  "issues (sends GET (rstrip CHR ''/'' u @ ''/api/v1/models'')) (get_model srv u k n module)"
  unfolding get_model_def
  by (intro issues_intros issues_http) (simp add: sends_def)

lemma get_entry_issues:
  "issues (sends GET (rstrip CHR ''/'' u @ ''/api/v1/hardware/bytag/'' @ tag))
     (get_entry srv u k tag module)"
  unfolding get_entry_def
  by (intro issues_intros issues_http) (simp add: sends_def)


lemma create_category_issues:
  "issues (\<lambda>req. sends GET (rstrip CHR ''/'' u @ ''/api/v1/categories'') req \<or>
             \<not> dry_run \<and> sends POST (rstrip CHR ''/'' u @ ''/api/v1/categories'') req)
     (create_category srv u k n t module dry_run)"
  unfolding create_category_def
  by (intro issues_intros issues_http issues_mono [OF get_category_issues])
    (auto simp: sends_def)

lemma create_model_issues:
  "issues (\<lambda>req. sends GET (rstrip CHR ''/'' u @ ''/api/v1/models'') req \<or>
             \<not> dry_run \<and> sends POST (rstrip CHR ''/'' u @ ''/api/v1/models'') req \<and>
             json_body req = Some (model_payload n c m))
     (create_model srv u k n c module dry_run m)"
  unfolding create_model_def
  by (intro issues_intros issues_http issues_mono [OF get_model_issues])
    (auto simp: sends_def)

lemma create_entry_issues:
  "issues (\<lambda>req. sends GET (rstrip CHR ''/'' u @ ''/api/v1/hardware/bytag/'' @ tag) req \<or>
             \<not> dry_run \<and> sends POST (rstrip CHR ''/'' u @ ''/api/v1/hardware'') req)
     (create_entry srv u k tag st mid module dry_run)"
  unfolding create_entry_def
  by (intro issues_intros issues_http issues_mono [OF get_entry_issues])
    (auto simp: sends_def)

lemma delete_entry_issues:
  "issues (\<lambda>req. sends GET (rstrip CHR ''/'' u @ ''/api/v1/hardware/bytag/'' @ tag) req \<or>
             \<not> dry_run \<and>
             (\<exists>ident. sends DELETE (rstrip CHR ''/'' u @ ''/api/v1/hardware/'' @ ident) req))
     (delete_entry srv u k tag module dry_run)"
  unfolding delete_entry_def
  by (intro issues_intros issues_http issues_mono [OF get_entry_issues])
    (auto simp: sends_def)

lemma update_entry_model_issues:
  "issues (\<lambda>req. sends GET (rstrip CHR ''/'' u @ ''/api/v1/hardware/bytag/'' @ tag) req \<or>
             \<not> dry_run \<and>
             (\<exists>ident. sends PATCH (rstrip CHR ''/'' u @ ''/api/v1/hardware/'' @ ident) req))
     (update_entry_model srv u k tag mid module dry_run)"
  unfolding update_entry_model_def
  by (intro issues_intros issues_http issues_mono [OF get_entry_issues])
    (auto simp: sends_def)

lemma update_entry_status_label_issues:
  "issues (\<lambda>req. sends GET (rstrip CHR ''/'' u @ ''/api/v1/hardware/bytag/'' @ tag) req \<or>
             \<not> dry_run \<and>
             (\<exists>ident. sends PATCH (rstrip CHR ''/'' u @ ''/api/v1/hardware/'' @ ident) req))
     (update_entry_status_label srv u k tag st module dry_run)"
  unfolding update_entry_status_label_def
  by (intro issues_intros issues_http issues_mono [OF get_entry_issues])
    (auto simp: sends_def)

lemma run_module_category_issues:
  "issues (\<lambda>req. sends GET (rstrip CHR ''/'' (p_snipe_url p) @ ''/api/v1/categories'') req \<or>
             sends POST (rstrip CHR ''/'' (p_snipe_url p) @ ''/api/v1/categories'') req)
     (run_module_category srv p)"
  unfolding run_module_category_def Let_def
  by (intro issues_intros issues_mono [OF get_category_issues]
        issues_mono [OF create_category_issues]) auto

lemma run_module_model_issues:
  "issues (\<lambda>req. sends GET (rstrip CHR ''/'' (p_snipe_url p) @ ''/api/v1/categories'') req \<or>
             sends GET (rstrip CHR ''/'' (p_snipe_url p) @ ''/api/v1/models'') req \<or>
             \<not> p_dry_run p \<and>
             sends POST (rstrip CHR ''/'' (p_snipe_url p) @ ''/api/v1/models'') req)
     (run_module_model srv p)"
  unfolding run_module_model_def Let_def
  by (intro issues_intros issues_mono [OF get_category_issues]
        issues_mono [OF create_model_issues]) auto

lemma run_module_entry_issues:
  "issues (\<lambda>req. sends GET (rstrip CHR ''/'' (p_snipe_url p) @ ''/api/v1/models'') req \<or>
             sends GET (rstrip CHR ''/'' (p_snipe_url p) @ ''/api/v1/hardware/bytag/'' @
               p_asset_tag p) req \<or>
             \<not> p_check_mode p \<and>
             (sends POST (rstrip CHR ''/'' (p_snipe_url p) @ ''/api/v1/hardware'') req \<or>
              (\<exists>ident. sends PATCH
                 (rstrip CHR ''/'' (p_snipe_url p) @ ''/api/v1/hardware/'' @ ident) req) \<or>
              (\<exists>ident. sends DELETE
                 (rstrip CHR ''/'' (p_snipe_url p) @ ''/api/v1/hardware/'' @ ident) req)))
     (run_module_entry srv p)"
  unfolding run_module_entry_def verify_params_def Let_def
  by (intro issues_intros issues_mono [OF get_model_issues]
        issues_mono [OF create_entry_issues] issues_mono [OF delete_entry_issues]
        issues_mono [OF update_entry_model_issues]
        issues_mono [OF update_entry_status_label_issues]) auto

subsection \<open>Single steps\<close>
















section \<open>Dry runs\<close>

text \<open>
  C4. With the dry-run flag set, no function and no module sends anything but GET
  requests, whatever the service answers and whatever the arguments are: this holds for
  each of the six functions that take \<^verbatim>\<open>dry_run\<close>, for the entry module in check mode
  and for the model module with its \<^verbatim>\<open>dry_run\<close> parameter. The category module has no
  such flag: its \<^verbatim>\<open>run_module\<close> passes the constant \<^verbatim>\<open>False\<close>.
\<close>

theorem dry_run_issues_only_get:
  "list_all (\<lambda>(req, rep). meth req = GET)
     (issued (create_category srv u k n t module True) w) \<and>
   list_all (\<lambda>(req, rep). meth req = GET)
     (issued (create_model srv u k n c module True m) w) \<and>
   list_all (\<lambda>(req, rep). meth req = GET)
     (issued (create_entry srv u k tag st mid module True) w) \<and>
   list_all (\<lambda>(req, rep). meth req = GET)
     (issued (delete_entry srv u k tag module True) w) \<and>
   list_all (\<lambda>(req, rep). meth req = GET)
     (issued (update_entry_model srv u k tag mid module True) w) \<and>
   list_all (\<lambda>(req, rep). meth req = GET)
     (issued (update_entry_status_label srv u k tag st module True) w) \<and>
   list_all (\<lambda>(req, rep). meth req = GET)
     (issued (run_module_entry srv (pe\<lparr>p_check_mode := True\<rparr>)) w) \<and>
   list_all (\<lambda>(req, rep). meth req = GET)
     (issued (run_module_model srv (pm\<lparr>p_dry_run := True\<rparr>)) w)"
proof (intro conjI)
  show "list_all (\<lambda>(req, rep). meth req = GET)
          (issued (create_category srv u k n t module True) w)"
    by (rule issued_all [OF create_category_issues]) (simp add: sends_def)
  show "list_all (\<lambda>(req, rep). meth req = GET)
          (issued (create_model srv u k n c module True m) w)"
    by (rule issued_all [OF create_model_issues]) (simp add: sends_def)
  show "list_all (\<lambda>(req, rep). meth req = GET)
          (issued (create_entry srv u k tag st mid module True) w)"
    by (rule issued_all [OF create_entry_issues]) (simp add: sends_def)
  show "list_all (\<lambda>(req, rep). meth req = GET)
          (issued (delete_entry srv u k tag module True) w)"
    by (rule issued_all [OF delete_entry_issues]) (simp add: sends_def)
  show "list_all (\<lambda>(req, rep). meth req = GET)
          (issued (update_entry_model srv u k tag mid module True) w)"
    by (rule issued_all [OF update_entry_model_issues]) (simp add: sends_def)
  show "list_all (\<lambda>(req, rep). meth req = GET)
          (issued (update_entry_status_label srv u k tag st module True) w)"
    by (rule issued_all [OF update_entry_status_label_issues]) (simp add: sends_def)
  show "list_all (\<lambda>(req, rep). meth req = GET)
          (issued (run_module_entry srv (pe\<lparr>p_check_mode := True\<rparr>)) w)"
    by (rule issued_all [OF run_module_entry_issues]) (auto simp: sends_def)
  show "list_all (\<lambda>(req, rep). meth req = GET)
          (issued (run_module_model srv (pm\<lparr>p_dry_run := True\<rparr>)) w)"
    by (rule issued_all [OF run_module_model_issues]) (auto simp: sends_def)
qed

text \<open>A dry run of the entry module against a service that already holds the asset:
  four lookups, all of them GET requests.\<close>

theorem dry_run_issues_only_get_witness:
  "list_all (\<lambda>(req, rep). meth req = GET)
     (issued (run_module_entry snipe_it (entry_a1\<lparr>p_check_mode := True\<rparr>)) (start stocked)) \<and>
   length (issued (run_module_entry snipe_it (entry_a1\<lparr>p_check_mode := True\<rparr>))
     (start stocked)) = 4 \<and>
   fst (run_module_entry snipe_it (entry_a1\<lparr>p_check_mode := True\<rparr>) (start stocked)) =
     Exit [(''changed'', JBool True)]"
proof -
  have "length (issued (run_module_entry snipe_it (entry_a1\<lparr>p_check_mode := True\<rparr>))
     (start stocked)) = 4"
    by code_simp
  moreover have "fst (run_module_entry snipe_it (entry_a1\<lparr>p_check_mode := True\<rparr>)
     (start stocked)) = Exit [(''changed'', JBool True)]"
    by code_simp
  ultimately show ?thesis
    using dry_run_issues_only_get [where srv = snipe_it and pe = entry_a1 and w = "start stocked"]
    by blast
qed

section \<open>The payload of a new model\<close>

text \<open>
  C10. Every POST of \<^verbatim>\<open>create_model\<close> carries the payload built from its arguments,
  and that payload has the key \<^verbatim>\<open>manufacturer_id\<close> exactly when the argument is
  truthy: neither \<^verbatim>\<open>None\<close> nor \<^verbatim>\<open>0\<close> is sent.
\<close>

theorem manufacturer_id_sent_iff_truthy:
  "list_all (\<lambda>(req, rep). meth req = GET \<or>
       meth req = POST \<and> json_body req = Some (model_payload n c m))
     (issued (create_model srv u k n c module dry_run m) w) \<and>
   in_keys ''manufacturer_id'' (model_payload n c m) = Inr (truthy_int m) \<and>
   truthy_int m = (m \<noteq> None \<and> m \<noteq> Some 0)"
proof (intro conjI)
  show "list_all (\<lambda>(req, rep). meth req = GET \<or>
       meth req = POST \<and> json_body req = Some (model_payload n c m))
     (issued (create_model srv u k n c module dry_run m) w)"
    by (rule issued_all [OF create_model_issues]) (auto simp: sends_def)
  show "in_keys ''manufacturer_id'' (model_payload n c m) = Inr (truthy_int m)"
    by (auto simp: model_payload_def)
  show "truthy_int m = (m \<noteq> None \<and> m \<noteq> Some 0)"
    by (cases m) simp_all
qed

text \<open>Creating a model with \<^verbatim>\<open>manufacturer_id=0\<close>: the POST carries the name and the
  category only.\<close>

theorem manufacturer_id_sent_iff_truthy_witness:
  "map (\<lambda>(req, rep). (meth req, json_body req))
     (issued (create_model snipe_it ''http://snipe'' ''k'' ''blade'' (JInt 1) (new_module ''k'')
        False (Some 0)) (start fresh)) =
     [(GET, None),
      (POST, Some (JObj [(''name'', JStr ''blade''), (''category_id'', JInt 1)]))] \<and>
   in_keys ''manufacturer_id'' (model_payload ''blade'' (JInt 1) (Some 0)) = Inr False"
proof -
  have "map (\<lambda>(req, rep). (meth req, json_body req))
     (issued (create_model snipe_it ''http://snipe'' ''k'' ''blade'' (JInt 1) (new_module ''k'')
        False (Some 0)) (start fresh)) =
     [(GET, None),
      (POST, Some (JObj [(''name'', JStr ''blade''), (''category_id'', JInt 1)]))]"
    by code_simp
  then show ?thesis
    using manufacturer_id_sent_iff_truthy [where n = "''blade''" and c = "JInt 1"
        and m = "Some 0" and srv = snipe_it and u = "''http://snipe''" and k = "''k''"
        and dry_run = False and w = "start fresh" and module = "new_module ''k''"]
    by simp
qed

section \<open>Lookups and error envelopes\<close>

text \<open>What \<^verbatim>\<open>get_entry\<close> makes of an error envelope that is not an asset: absence when
  the message is \<^verbatim>\<open>Asset does not exist.\<close>, \<^verbatim>\<open>fail_json\<close> with the message otherwise.\<close>

lemma get_entry_error_envelope:
  assumes reply: "srv \<lparr>meth = GET,
        url = rstrip CHR ''/'' u @ ''/api/v1/hardware/bytag/'' @ tag,
        headers = bearer k, params = [], json_body = None\<rparr> (remote w) = (Inr (JObj kvs), s')"
    and no_tag: "''asset_tag'' \<notin> fst ` set kvs"
    and envelope: "error_messages (Inr (JObj kvs)) = Some messages"
    and formatted: "py_str messages = Some text"
  shows "fst (get_entry srv u k tag module w) =
     (if py_eq messages (JStr ''Asset does not exist.'') then Ok JNull
      else Fail (mask_str (no_log_values module) (''Error retrieving entry: '' @ text)))"
  using assms
  by (auto simp: get_entry_def and_then_def http_def lift_def ret_def fail_json_def
      py_format_def error_messages_def split: option.splits if_splits)

text \<open>
  C2. Against a service that answers every request with the error envelope
  \<^verbatim>\<open>{"status": "error", "messages": "Unauthorized."}\<close>, \<^verbatim>\<open>get_entry\<close> ends in
  \<^verbatim>\<open>fail_json\<close> with the service's message, as the claim says. \<^verbatim>\<open>get_category\<close> and
  \<^verbatim>\<open>get_model\<close> do not look at \<^verbatim>\<open>status\<close>: they read \<^verbatim>\<open>data["total"]\<close>, which the
  envelope does not have, and die of an uncaught \<^verbatim>\<open>KeyError\<close>; the message is lost.
\<close>

theorem lookup_error_envelope_crashes:
  "fst (get_entry unauthorized ''http://snipe'' ''k'' ''a1'' (new_module ''k'') (start ())) =
     Fail ''Error retrieving entry: Unauthorized.'' \<and>
   fst (get_category unauthorized ''http://snipe'' ''k'' ''servers'' ''asset'' (start ())) =
     Crash (KeyError (JStr ''total'')) \<and>
   fst (get_model unauthorized ''http://snipe'' ''k'' ''rack-server'' (new_module ''k'')
     (start ())) = Crash (KeyError (JStr ''total'')) \<and>
   map (\<lambda>(req, rep). error_messages rep)
     (issued (get_model unauthorized ''http://snipe'' ''k'' ''rack-server'' (new_module ''k''))
        (start ())) = [Some (JStr ''Unauthorized.'')]"
  by code_simp

section \<open>Check mode of the entry module\<close>

text \<open>
  C1. The entry module with \<^verbatim>\<open>state=present\<close> for the asset \<^verbatim>\<open>a1\<close>, which the service
  does not hold. The real run creates it and exits with \<^verbatim>\<open>changed=true\<close>. The run in
  check mode does not complete: \<^verbatim>\<open>create_entry\<close> returns \<^verbatim>\<open>True\<close> without creating
  anything, then \<^verbatim>\<open>update_entry_model\<close> looks the asset up again, gets \<^verbatim>\<open>None\<close> and
  subscripts it, which raises \<^verbatim>\<open>TypeError\<close>; no \<^verbatim>\<open>changed\<close> is reported.
\<close>

theorem check_mode_crashes_on_new_entry:
  "fst (get_entry snipe_it (p_snipe_url entry_a1) (p_api_key entry_a1) (p_asset_tag entry_a1)
     (new_module (p_api_key entry_a1)) (start fresh)) = Ok JNull \<and>
   fst (run_module_entry snipe_it entry_a1 (start fresh)) = Exit [(''changed'', JBool True)] \<and>
   fst (run_module_entry snipe_it (entry_a1\<lparr>p_check_mode := True\<rparr>) (start fresh)) =
     Crash TypeError \<and>
   map (\<lambda>(req, rep). (meth req, url req))
     (issued (run_module_entry snipe_it (entry_a1\<lparr>p_check_mode := True\<rparr>)) (start fresh)) =
     [(GET, ''http://snipe/api/v1/models''),
      (GET, ''http://snipe/api/v1/hardware/bytag/a1''),
      (GET, ''http://snipe/api/v1/hardware/bytag/a1'')]"
  by code_simp

section \<open>Trailing slashes of the base URL\<close>

lemma dropWhile_replicate: "dropWhile (\<lambda>x. x = c) (replicate i c @ ys) = dropWhile (\<lambda>x. x = c) ys"
  by (induction i) simp_all

lemma takeWhile_eq_replicate:
  "takeWhile (\<lambda>x. x = c) xs = replicate (length (takeWhile (\<lambda>x. x = c) xs)) c"
  by (induction xs) simp_all

lemma rstrip_replicate: "rstrip c (b @ replicate i c) = rstrip c b"
  by (simp add: rstrip_def dropWhile_replicate)

lemma rstrip_no_trailing: "rstrip c u = [] \<or> last (rstrip c u) \<noteq> c"
proof (cases "dropWhile (\<lambda>x. x = c) (rev u)")
  case Nil
  then show ?thesis by (simp add: rstrip_def)
next
  case (Cons x xs)
  then have "x \<noteq> c" using hd_dropWhile [of "\<lambda>x. x = c" "rev u"] by auto
  with Cons show ?thesis by (simp add: rstrip_def)
qed

lemma rstrip_decompose: "\<exists>i. u = rstrip c u @ replicate i c"
proof -
  have "rev u = takeWhile (\<lambda>x. x = c) (rev u) @ dropWhile (\<lambda>x. x = c) (rev u)" by simp
  then have "u = rev (dropWhile (\<lambda>x. x = c) (rev u)) @ rev (takeWhile (\<lambda>x. x = c) (rev u))"
    by (metis rev_append rev_rev_ident)
  also have "rev (takeWhile (\<lambda>x. x = c) (rev u)) =
      replicate (length (takeWhile (\<lambda>x. x = c) (rev u))) c"
    by (subst takeWhile_eq_replicate) simp
  finally show ?thesis unfolding rstrip_def by blast
qed

lemma rstrip_eq_lookups:
  assumes "rstrip CHR ''/'' u1 = rstrip CHR ''/'' u2"
  shows "get_category srv u1 k n t = get_category srv u2 k n t"
    and "get_model srv u1 k n module = get_model srv u2 k n module"
    and "get_entry srv u1 k tag module = get_entry srv u2 k tag module"
  using assms by (simp_all add: get_category_def get_model_def get_entry_def)

lemma rstrip_eq_functions:
  assumes "rstrip CHR ''/'' u1 = rstrip CHR ''/'' u2"
  shows "create_category srv u1 k n t module dry_run = create_category srv u2 k n t module dry_run"
    and "create_model srv u1 k n c module dry_run m = create_model srv u2 k n c module dry_run m"
    and "create_entry srv u1 k tag st mid module dry_run =
         create_entry srv u2 k tag st mid module dry_run"
    and "delete_entry srv u1 k tag module dry_run = delete_entry srv u2 k tag module dry_run"
    and "update_entry_model srv u1 k tag mid module dry_run =
         update_entry_model srv u2 k tag mid module dry_run"
    and "update_entry_status_label srv u1 k tag st module dry_run =
         update_entry_status_label srv u2 k tag st module dry_run"
  using assms rstrip_eq_lookups [OF assms, of srv]
  by (simp_all add: create_category_def create_model_def create_entry_def delete_entry_def
      update_entry_model_def update_entry_status_label_def cong: if_cong)

lemma rstrip_eq_modules:
  assumes "rstrip CHR ''/'' u1 = rstrip CHR ''/'' u2"
  shows "run_module_category srv (pc\<lparr>p_snipe_url := u1\<rparr>) =
         run_module_category srv (pc\<lparr>p_snipe_url := u2\<rparr>)"
    and "run_module_model srv (pm\<lparr>p_snipe_url := u1\<rparr>) =
         run_module_model srv (pm\<lparr>p_snipe_url := u2\<rparr>)"
    and "run_module_entry srv (pe\<lparr>p_snipe_url := u1\<rparr>) =
         run_module_entry srv (pe\<lparr>p_snipe_url := u2\<rparr>)"
  using rstrip_eq_lookups [OF assms, of srv] rstrip_eq_functions [OF assms, of srv]
  by (simp_all add: run_module_category_def run_module_model_def run_module_entry_def
      verify_params_def cong: if_cong)

text \<open>
  C9. What \<^verbatim>\<open>rstrip('/')\<close> returns is the URL without its trailing slashes: the URL is
  what it returns followed by slashes only, and what it returns does not end with a
  slash. The URL of every request of every function and module is that base followed
  by the path of the endpoint. And two runs whose base URLs differ only in the number
  of trailing slashes are the same run: same requests, same outcome.
\<close>

theorem trailing_slashes_ignored:
  "(\<exists>i. b = rstrip CHR ''/'' b @ replicate i CHR ''/'') \<and>
   (rstrip CHR ''/'' b = [] \<or> last (rstrip CHR ''/'' b) \<noteq> CHR ''/'') \<and>
   list_all (\<lambda>(req, rep). url req = rstrip CHR ''/'' b @ ''/api/v1/categories'')
     (issued (get_category srv b k n t) w) \<and>
   list_all (\<lambda>(req, rep). url req = rstrip CHR ''/'' b @ ''/api/v1/models'')
     (issued (get_model srv b k n module) w) \<and>
   list_all (\<lambda>(req, rep). url req = rstrip CHR ''/'' b @ ''/api/v1/hardware/bytag/'' @ tag)
     (issued (get_entry srv b k tag module) w) \<and>
   list_all (\<lambda>(req, rep). url req = rstrip CHR ''/'' b @ ''/api/v1/categories'')
     (issued (create_category srv b k n t module dry_run) w) \<and>
   list_all (\<lambda>(req, rep). url req = rstrip CHR ''/'' b @ ''/api/v1/models'')
     (issued (create_model srv b k n c module dry_run m) w) \<and>
   list_all (\<lambda>(req, rep). url req = rstrip CHR ''/'' b @ ''/api/v1/hardware/bytag/'' @ tag \<or>
       url req = rstrip CHR ''/'' b @ ''/api/v1/hardware'')
     (issued (create_entry srv b k tag st mid module dry_run) w) \<and>
   list_all (\<lambda>(req, rep). url req = rstrip CHR ''/'' b @ ''/api/v1/hardware/bytag/'' @ tag \<or>
       (\<exists>ident. url req = rstrip CHR ''/'' b @ ''/api/v1/hardware/'' @ ident))
     (issued (delete_entry srv b k tag module dry_run) w) \<and>
   list_all (\<lambda>(req, rep). url req = rstrip CHR ''/'' b @ ''/api/v1/hardware/bytag/'' @ tag \<or>
       (\<exists>ident. url req = rstrip CHR ''/'' b @ ''/api/v1/hardware/'' @ ident))
     (issued (update_entry_model srv b k tag mid module dry_run) w) \<and>
   list_all (\<lambda>(req, rep). url req = rstrip CHR ''/'' b @ ''/api/v1/hardware/bytag/'' @ tag \<or>
       (\<exists>ident. url req = rstrip CHR ''/'' b @ ''/api/v1/hardware/'' @ ident))
     (issued (update_entry_status_label srv b k tag st module dry_run) w) \<and>
   list_all (\<lambda>(req, rep).
       url req = rstrip CHR ''/'' (p_snipe_url pc) @ ''/api/v1/categories'')
     (issued (run_module_category srv pc) w) \<and>
   list_all (\<lambda>(req, rep).
       url req = rstrip CHR ''/'' (p_snipe_url pm) @ ''/api/v1/categories'' \<or>
       url req = rstrip CHR ''/'' (p_snipe_url pm) @ ''/api/v1/models'')
     (issued (run_module_model srv pm) w) \<and>
   list_all (\<lambda>(req, rep).
       url req = rstrip CHR ''/'' (p_snipe_url pe) @ ''/api/v1/models'' \<or>
       url req = rstrip CHR ''/'' (p_snipe_url pe) @ ''/api/v1/hardware/bytag/'' @
         p_asset_tag pe \<or>
       url req = rstrip CHR ''/'' (p_snipe_url pe) @ ''/api/v1/hardware'' \<or>
       (\<exists>ident. url req = rstrip CHR ''/'' (p_snipe_url pe) @ ''/api/v1/hardware/'' @ ident))
     (issued (run_module_entry srv pe) w) \<and>
   rstrip CHR ''/'' (b @ replicate i CHR ''/'') = rstrip CHR ''/'' b \<and>
   get_category srv (b @ replicate i CHR ''/'') k n t =
     get_category srv (b @ replicate j CHR ''/'') k n t \<and>
   get_model srv (b @ replicate i CHR ''/'') k n module =
     get_model srv (b @ replicate j CHR ''/'') k n module \<and>
   get_entry srv (b @ replicate i CHR ''/'') k tag module =
     get_entry srv (b @ replicate j CHR ''/'') k tag module \<and>
   create_category srv (b @ replicate i CHR ''/'') k n t module dry_run =
     create_category srv (b @ replicate j CHR ''/'') k n t module dry_run \<and>
   create_model srv (b @ replicate i CHR ''/'') k n c module dry_run m =
     create_model srv (b @ replicate j CHR ''/'') k n c module dry_run m \<and>
   create_entry srv (b @ replicate i CHR ''/'') k tag st mid module dry_run =
     create_entry srv (b @ replicate j CHR ''/'') k tag st mid module dry_run \<and>
   delete_entry srv (b @ replicate i CHR ''/'') k tag module dry_run =
     delete_entry srv (b @ replicate j CHR ''/'') k tag module dry_run \<and>
   update_entry_model srv (b @ replicate i CHR ''/'') k tag mid module dry_run =
     update_entry_model srv (b @ replicate j CHR ''/'') k tag mid module dry_run \<and>
   update_entry_status_label srv (b @ replicate i CHR ''/'') k tag st module dry_run =
     update_entry_status_label srv (b @ replicate j CHR ''/'') k tag st module dry_run \<and>
   run_module_category srv (pc\<lparr>p_snipe_url := b @ replicate i CHR ''/''\<rparr>) =
     run_module_category srv (pc\<lparr>p_snipe_url := b @ replicate j CHR ''/''\<rparr>) \<and>
   run_module_model srv (pm\<lparr>p_snipe_url := b @ replicate i CHR ''/''\<rparr>) =
     run_module_model srv (pm\<lparr>p_snipe_url := b @ replicate j CHR ''/''\<rparr>) \<and>
   run_module_entry srv (pe\<lparr>p_snipe_url := b @ replicate i CHR ''/''\<rparr>) =
     run_module_entry srv (pe\<lparr>p_snipe_url := b @ replicate j CHR ''/''\<rparr>)"
proof -
  have eq: "rstrip CHR ''/'' (b @ replicate i CHR ''/'') =
      rstrip CHR ''/'' (b @ replicate j CHR ''/'')"
    by (simp add: rstrip_replicate)
  have 1: "list_all (\<lambda>(req, rep). url req = rstrip CHR ''/'' b @ ''/api/v1/categories'')
     (issued (get_category srv b k n t) w)"
    by (rule issued_all [OF get_category_issues]) (simp add: sends_def)
  have 2: "list_all (\<lambda>(req, rep). url req = rstrip CHR ''/'' b @ ''/api/v1/models'')
     (issued (get_model srv b k n module) w)"
    by (rule issued_all [OF get_model_issues]) (simp add: sends_def)
  have 3: "list_all (\<lambda>(req, rep).
       url req = rstrip CHR ''/'' b @ ''/api/v1/hardware/bytag/'' @ tag)
     (issued (get_entry srv b k tag module) w)"
    by (rule issued_all [OF get_entry_issues]) (simp add: sends_def)
  have 4: "list_all (\<lambda>(req, rep). url req = rstrip CHR ''/'' b @ ''/api/v1/categories'')
     (issued (create_category srv b k n t module dry_run) w)"
    by (rule issued_all [OF create_category_issues]) (auto simp: sends_def)
  have 5: "list_all (\<lambda>(req, rep). url req = rstrip CHR ''/'' b @ ''/api/v1/models'')
     (issued (create_model srv b k n c module dry_run m) w)"
    by (rule issued_all [OF create_model_issues]) (auto simp: sends_def)
  have 6: "list_all (\<lambda>(req, rep).
       url req = rstrip CHR ''/'' b @ ''/api/v1/hardware/bytag/'' @ tag \<or>
       url req = rstrip CHR ''/'' b @ ''/api/v1/hardware'')
     (issued (create_entry srv b k tag st mid module dry_run) w)"
    by (rule issued_all [OF create_entry_issues]) (auto simp: sends_def)
  have 7: "list_all (\<lambda>(req, rep).
       url req = rstrip CHR ''/'' b @ ''/api/v1/hardware/bytag/'' @ tag \<or>
       (\<exists>ident. url req = rstrip CHR ''/'' b @ ''/api/v1/hardware/'' @ ident))
     (issued (delete_entry srv b k tag module dry_run) w)"
    by (rule issued_all [OF delete_entry_issues]) (auto simp: sends_def)
  have 8: "list_all (\<lambda>(req, rep).
       url req = rstrip CHR ''/'' b @ ''/api/v1/hardware/bytag/'' @ tag \<or>
       (\<exists>ident. url req = rstrip CHR ''/'' b @ ''/api/v1/hardware/'' @ ident))
     (issued (update_entry_model srv b k tag mid module dry_run) w)"
    by (rule issued_all [OF update_entry_model_issues]) (auto simp: sends_def)
  have 9: "list_all (\<lambda>(req, rep).
       url req = rstrip CHR ''/'' b @ ''/api/v1/hardware/bytag/'' @ tag \<or>
       (\<exists>ident. url req = rstrip CHR ''/'' b @ ''/api/v1/hardware/'' @ ident))
     (issued (update_entry_status_label srv b k tag st module dry_run) w)"
    by (rule issued_all [OF update_entry_status_label_issues]) (auto simp: sends_def)
  have 10: "list_all (\<lambda>(req, rep).
       url req = rstrip CHR ''/'' (p_snipe_url pc) @ ''/api/v1/categories'')
     (issued (run_module_category srv pc) w)"
    by (rule issued_all [OF run_module_category_issues]) (auto simp: sends_def)
  have 11: "list_all (\<lambda>(req, rep).
       url req = rstrip CHR ''/'' (p_snipe_url pm) @ ''/api/v1/categories'' \<or>
       url req = rstrip CHR ''/'' (p_snipe_url pm) @ ''/api/v1/models'')
     (issued (run_module_model srv pm) w)"
    by (rule issued_all [OF run_module_model_issues]) (auto simp: sends_def)
  have 12: "list_all (\<lambda>(req, rep).
       url req = rstrip CHR ''/'' (p_snipe_url pe) @ ''/api/v1/models'' \<or>
       url req = rstrip CHR ''/'' (p_snipe_url pe) @ ''/api/v1/hardware/bytag/'' @
         p_asset_tag pe \<or>
       url req = rstrip CHR ''/'' (p_snipe_url pe) @ ''/api/v1/hardware'' \<or>
       (\<exists>ident. url req = rstrip CHR ''/'' (p_snipe_url pe) @ ''/api/v1/hardware/'' @ ident))
     (issued (run_module_entry srv pe) w)"
    by (rule issued_all [OF run_module_entry_issues]) (auto simp: sends_def)
  show ?thesis
    by (intro conjI rstrip_decompose 1 2 3 4 5 6 7 8 9 10 11 12 rstrip_no_trailing
        rstrip_replicate rstrip_eq_lookups [OF eq] rstrip_eq_functions [OF eq]
        rstrip_eq_modules [OF eq])
qed

theorem trailing_slashes_ignored_witness:
  "run_module_entry snipe_it (entry_a1\<lparr>p_snipe_url := ''http://snipe'' @ replicate 0 CHR ''/''\<rparr>)
     (start stocked) =
   run_module_entry snipe_it (entry_a1\<lparr>p_snipe_url := ''http://snipe'' @ replicate 2 CHR ''/''\<rparr>)
     (start stocked) \<and>
   rstrip CHR ''/'' ''http://snipe//'' = ''http://snipe'' \<and>
   map (\<lambda>(req, rep). url req)
     (issued (run_module_entry snipe_it (entry_a1\<lparr>p_snipe_url := ''http://snipe//''\<rparr>))
        (start stocked)) =
     [''http://snipe/api/v1/models'', ''http://snipe/api/v1/hardware/bytag/a1'',
      ''http://snipe/api/v1/hardware/bytag/a1'', ''http://snipe/api/v1/hardware/3'',
      ''http://snipe/api/v1/hardware/bytag/a1'', ''http://snipe/api/v1/hardware/3'']"
proof -
  have "map (\<lambda>(req, rep). url req)
     (issued (run_module_entry snipe_it (entry_a1\<lparr>p_snipe_url := ''http://snipe//''\<rparr>))
        (start stocked)) =
     [''http://snipe/api/v1/models'', ''http://snipe/api/v1/hardware/bytag/a1'',
      ''http://snipe/api/v1/hardware/bytag/a1'', ''http://snipe/api/v1/hardware/3'',
      ''http://snipe/api/v1/hardware/bytag/a1'', ''http://snipe/api/v1/hardware/3'']"
    by code_simp
  moreover have "rstrip CHR ''/'' ''http://snipe//'' = ''http://snipe''"
    by (simp add: rstrip_def)
  ultimately show ?thesis
    using trailing_slashes_ignored [where srv = snipe_it and pe = entry_a1
        and b = "''http://snipe''" and i = 0 and j = 2]
    by metis
qed

section \<open>The endpoints\<close>



















section \<open>Error envelopes in reply to a change\<close>

































subsection \<open>Masking\<close>









section \<open>Removing an entry\<close>













section \<open>Creating twice\<close>
















text \<open>The condition is not met for every key: the small service stores an asset whose
  tag has a \<^verbatim>\<open>#\<close> in it, and the lookup does not reach it, because the path of the GET
  ends before the \<^verbatim>\<open>#\<close>. For such a tag the theorem says nothing.\<close>

lemma snipe_it_loses_tagged:
  "\<not> keeps snipe_it (creates_entry ''http://snipe'' ''a#1'')
     (looks_up_entry ''http://snipe'' ''a#1'') holds_asset"
proof
  let ?post = "\<lparr>meth = POST, url = ''http://snipe/api/v1/hardware'', headers = [], params = [],
      json_body = Some (JObj [(''asset_tag'', JStr ''a#1''), (''status_id'', JInt 2),
                              (''model_id'', JInt 2)])\<rparr>"
  let ?get = "\<lparr>meth = GET, url = ''http://snipe/api/v1/hardware/bytag/a#1'', headers = [],
      params = [], json_body = None\<rparr>"
  assume kept: "keeps snipe_it (creates_entry ''http://snipe'' ''a#1'')
     (looks_up_entry ''http://snipe'' ''a#1'') holds_asset"
  have "creates_entry ''http://snipe'' ''a#1'' ?post"
    by (simp add: creates_entry_def sends_def field_def)
  moreover have "snipe_it ?post fresh = (success, tagged)"
    by code_simp
  moreover have "\<exists>data. success = Inr data \<and> accepted data"
    by (simp add: success_def accepted_def)
  moreover have "looks_up_entry ''http://snipe'' ''a#1'' ?get"
    by (simp add: looks_up_entry_def sends_def)
  ultimately obtain row s'' where "snipe_it ?get tagged = (Inr row, s'')" and "holds_asset row"
    using kept unfolding keeps_def by metis
  moreover have "snipe_it ?get tagged = (failure ''Asset does not exist.'', tagged)"
    by code_simp
  ultimately show False by (auto simp: failure_def holds_asset_def)
qed

section \<open>A resource that is found\<close>










end
